theory Spec2Isabelle
  imports Main "HOL-Library.Word"
begin

unbundle bit_operations_syntax

section \<open>Python values\<close>

text \<open>
  A Python \<open>str\<close> is a sequence of Unicode code points and a \<open>bytes\<close> object a sequence
  of integers below 256; both are lists of naturals here. String literals of the source
  are written \<open>lit ''...''\<close>.
\<close>

type_synonym str = "nat list"
type_synonym bytes = "nat list"

abbreviation lit :: "string \<Rightarrow> str" where
  "lit s \<equiv> map of_char s"

text \<open>
  The exceptions the program and the library functions it calls can raise.
  \<open>binascii.Error\<close>, \<open>UnicodeDecodeError\<close> and \<open>UnicodeEncodeError\<close> are subclasses of
  \<open>ValueError\<close> in Python; \<open>SystemExit\<close> is what the builtin \<open>exit\<close> raises, and
  \<open>EOFError\<close> is what \<open>input\<close> raises when standard input is exhausted.
  \<open>print(e)\<close> writes the message an exception carries.
\<close>

datatype exn =
    CommandNameConversionError str
  | ValueError str
  | binascii_Error str
  | UnicodeDecodeError
  | UnicodeEncodeError
  | KeyError str
  | IndexError
  | NotImplementedError str
  | SystemExit int
  | EOFError

fun isinstance_ValueError :: "exn \<Rightarrow> bool" where
  "isinstance_ValueError (ValueError m) = True"
| "isinstance_ValueError (binascii_Error m) = True"
| "isinstance_ValueError UnicodeDecodeError = True"
| "isinstance_ValueError UnicodeEncodeError = True"
| "isinstance_ValueError e = False"

fun isinstance_CommandNameConversionError :: "exn \<Rightarrow> bool" where
  "isinstance_CommandNameConversionError (CommandNameConversionError m) = True"
| "isinstance_CommandNameConversionError e = False"

text \<open>The digest constructors of \<open>hashlib\<close> that the hash table refers to.\<close>

datatype hash_fn =
    blake2b | blake2s | md5 | sha1 | sha224 | sha256 | sha384
  | sha3_224 | sha3_256 | sha3_384 | sha3_512 | sha512

text \<open>
  Two parts of the Python runtime are not written out and are taken as parameters:
  the Unicode upper-case mapping of the code points outside ASCII that are not
  white space (\<open>upper_ext\<close>), and the digest functions of \<open>hashlib\<close> other than MD5
  (\<open>digest_ext\<close>). Every statement below holds for all values of both.
\<close>

record runtime =
  upper_ext :: "nat \<Rightarrow> str"
  digest_ext :: "hash_fn \<Rightarrow> bytes \<Rightarrow> bytes"

subsection \<open>String methods\<close>

text \<open>\<open>str.isspace\<close> of one code point: the white space that \<open>str.strip()\<close> removes.\<close>

definition isspace :: "nat \<Rightarrow> bool" where
  "isspace c \<longleftrightarrow>
     (9 \<le> c \<and> c \<le> 13) \<or> (28 \<le> c \<and> c \<le> 32) \<or> c = 0x85 \<or> c = 0xA0 \<or> c = 0x1680 \<or>
     (0x2000 \<le> c \<and> c \<le> 0x200A) \<or> c = 0x2028 \<or> c = 0x2029 \<or> c = 0x202F \<or>
     c = 0x205F \<or> c = 0x3000"

definition strip :: "str \<Rightarrow> str" where
  "strip s = rev (dropWhile isspace (rev (dropWhile isspace s)))"

text \<open>
  \<open>str.upper()\<close>: the ASCII letters \<open>a\<close> to \<open>z\<close> go to \<open>A\<close> to \<open>Z\<close>, every other ASCII
  code point and every white-space code point is kept, and the remaining code points
  are mapped by the runtime's table (one code point may become several).
\<close>

definition upper_char :: "runtime \<Rightarrow> nat \<Rightarrow> str" where
  "upper_char rt c =
     (if 97 \<le> c \<and> c \<le> 122 then [c - 32]
      else if c < 128 \<or> isspace c then [c]
      else upper_ext rt c)"

definition upper :: "runtime \<Rightarrow> str \<Rightarrow> str" where
  "upper rt s = concat (map (upper_char rt) s)"

text \<open>\<open>s.split(' ')\<close>: splitting at every single space; the result is never empty.\<close>

fun split_space :: "str \<Rightarrow> str list" where
  "split_space [] = [[]]"
| "split_space (c # cs) =
     (if c = 32 then [] # split_space cs
      else (case split_space cs of
              [] \<Rightarrow> [[c]]
            | w # ws \<Rightarrow> (c # w) # ws))"

text \<open>\<open>sep.join(xs)\<close>.\<close>

fun join :: "str \<Rightarrow> str list \<Rightarrow> str" where
  "join sep [] = []"
| "join sep [x] = x"
| "join sep (x # y # ys) = x @ sep @ join sep (y # ys)"

text \<open>The decimal rendering of a natural number, as \<open>%d\<close> formats it.\<close>

fun str_of_nat :: "nat \<Rightarrow> str" where
  "str_of_nat n = (if n < 10 then [48 + n] else str_of_nat (n div 10) @ [48 + n mod 10])"

declare str_of_nat.simps [simp del]

section \<open>The library codecs\<close>

text \<open>
  The functions of \<open>binascii\<close> and \<open>base64\<close> that the encode and decode tables hold,
  with the default arguments the program calls them with. Shifts and masks of the
  library code are written as division, multiplication and remainder by powers of two,
  which is what they compute on non-negative integers. A function that decodes takes a
  \<open>bytes\<close> object or a \<open>str\<close>.
\<close>

datatype data = Bytes bytes | Str str

text \<open>\<open>base64._bytes_from_decode_data\<close>, also the conversion \<open>binascii\<close> applies to a \<open>str\<close>.\<close>

definition bytes_from_decode_data :: "data \<Rightarrow> exn + bytes" where
  "bytes_from_decode_data s =
     (case s of
        Str t \<Rightarrow>
          if list_all (\<lambda>c. c < 128) t then Inr t
          else Inl (ValueError (lit ''string argument should contain only ASCII characters''))
      | Bytes b \<Rightarrow> Inr b)"

text \<open>The slices \<open>s[i:i+n]\<close> for \<open>i\<close> in \<open>range(0, len(s), n)\<close>.\<close>

function chunks :: "nat \<Rightarrow> 'a list \<Rightarrow> 'a list list" where
  "chunks n s = (if s = [] \<or> n = 0 then [] else take n s # chunks n (drop n s))"
  by pat_completeness auto
termination
  by (relation "measure (\<lambda>(n, s). length s)") auto

declare chunks.simps [simp del]

text \<open>\<open>int.from_bytes(s)\<close>, big endian, and \<open>struct.pack('!I', n)\<close> for \<open>n\<close> below \<open>2 ^ 32\<close>.\<close>

definition from_bytes :: "bytes \<Rightarrow> nat" where
  "from_bytes s = foldl (\<lambda>acc b. acc * 256 + b) 0 s"

definition packI :: "nat \<Rightarrow> bytes" where
  "packI n = [n div 2 ^ 24 mod 256, n div 2 ^ 16 mod 256, n div 2 ^ 8 mod 256, n mod 256]"

text \<open>\<open>s.rstrip(c)\<close> for one byte \<open>c\<close>, and \<open>bytes.upper\<close>.\<close>

definition rstrip :: "nat \<Rightarrow> bytes \<Rightarrow> bytes" where
  "rstrip c s = rev (dropWhile (\<lambda>x. x = c) (rev s))"

definition bytes_upper :: "bytes \<Rightarrow> bytes" where
  "bytes_upper s = map (\<lambda>c. if 97 \<le> c \<and> c \<le> 122 then c - 32 else c) s"

text \<open>The position of the first occurrence of a byte in an alphabet.\<close>

fun index_of :: "nat \<Rightarrow> bytes \<Rightarrow> nat option" where
  "index_of c [] = None"
| "index_of c (x # xs) = (if x = c then Some 0 else map_option Suc (index_of c xs))"

subsection \<open>Hexadecimal\<close>

definition hexdigits :: bytes where
  "hexdigits = lit ''0123456789abcdef''"

fun hexlify :: "bytes \<Rightarrow> bytes" where
  "hexlify [] = []"
| "hexlify (c # cs) = hexdigits ! (c div 16) # hexdigits ! (c mod 16) # hexlify cs"

text \<open>
  The value of a digit in bases up to 36, with 37 for every other byte
  (\<open>_PyLong_DigitValue\<close>).
\<close>

definition digit_value :: "nat \<Rightarrow> nat" where
  "digit_value c =
     (if 48 \<le> c \<and> c \<le> 57 then c - 48
      else if 97 \<le> c \<and> c \<le> 122 then c - 87
      else if 65 \<le> c \<and> c \<le> 90 then c - 55
      else 37)"

fun a2b_hex :: "bytes \<Rightarrow> exn + bytes" where
  "a2b_hex (a # b # cs) =
     (if digit_value a \<ge> 16 \<or> digit_value b \<ge> 16
      then Inl (binascii_Error (lit ''Non-hexadecimal digit found''))
      else (case a2b_hex cs of
              Inl e \<Rightarrow> Inl e
            | Inr r \<Rightarrow> Inr ((digit_value a * 16 + digit_value b) # r)))"
| "a2b_hex cs = Inr []"

definition unhexlify :: "data \<Rightarrow> exn + bytes" where
  "unhexlify s =
     (case bytes_from_decode_data s of
        Inl e \<Rightarrow> Inl e
      | Inr b \<Rightarrow>
          if length b mod 2 \<noteq> 0 then Inl (binascii_Error (lit ''Odd-length string''))
          else a2b_hex b)"

definition b16encode :: "bytes \<Rightarrow> bytes" where
  "b16encode s = bytes_upper (hexlify s)"

definition b16decode :: "data \<Rightarrow> exn + bytes" where
  "b16decode s =
     (case bytes_from_decode_data s of
        Inl e \<Rightarrow> Inl e
      | Inr b \<Rightarrow>
          if list_ex (\<lambda>c. \<not> ((48 \<le> c \<and> c \<le> 57) \<or> (65 \<le> c \<and> c \<le> 70))) b
          then Inl (binascii_Error (lit ''Non-base16 digit found''))
          else unhexlify (Bytes b))"

subsection \<open>Base64\<close>

definition table_b2a_base64 :: bytes where
  "table_b2a_base64 =
     lit ''ABCDEFGHIJKLMNOPQRSTUVWXYZabcdefghijklmnopqrstuvwxyz0123456789+/''"

text \<open>\<open>binascii.b2a_base64(s, newline=False)\<close>: three bytes become four digits.\<close>

fun b2a_base64 :: "bytes \<Rightarrow> bytes" where
  "b2a_base64 (a # b # c # rest) =
     table_b2a_base64 ! (a div 4) #
     table_b2a_base64 ! (a mod 4 * 16 + b div 16) #
     table_b2a_base64 ! (b mod 16 * 4 + c div 64) #
     table_b2a_base64 ! (c mod 64) # b2a_base64 rest"
| "b2a_base64 [a, b] =
     [table_b2a_base64 ! (a div 4), table_b2a_base64 ! (a mod 4 * 16 + b div 16),
      table_b2a_base64 ! (b mod 16 * 4), 61]"
| "b2a_base64 [a] =
     [table_b2a_base64 ! (a div 4), table_b2a_base64 ! (a mod 4 * 16), 61, 61]"
| "b2a_base64 [] = []"

definition b64encode :: "bytes \<Rightarrow> bytes" where
  "b64encode s = b2a_base64 s"

text \<open>The value of a Base64 digit; 64 stands for a byte outside the alphabet.\<close>

definition table_a2b_base64 :: "nat \<Rightarrow> nat" where
  "table_a2b_base64 c =
     (if 65 \<le> c \<and> c \<le> 90 then c - 65
      else if 97 \<le> c \<and> c \<le> 122 then c - 71
      else if 48 \<le> c \<and> c \<le> 57 then c + 4
      else if c = 43 then 62
      else if c = 47 then 63
      else 64)"

text \<open>
  \<open>binascii.a2b_base64(s, strict_mode=False)\<close>. The loop keeps the position in the
  current group of four digits (\<open>quad_pos\<close>), the bits left over from the last digit
  (\<open>leftchar\<close>), the number of padding characters seen since the last digit (\<open>pads\<close>)
  and the number of bytes written (\<open>n\<close>). Bytes outside the alphabet are skipped, and a
  complete padding ends the decoding.
\<close>

fun a2b_base64_loop :: "nat \<Rightarrow> nat \<Rightarrow> nat \<Rightarrow> nat \<Rightarrow> bytes \<Rightarrow> exn + bytes" where
  "a2b_base64_loop quad_pos leftchar pads n [] =
     (if quad_pos \<noteq> 0 then
        (if quad_pos = 1 then
           Inl (binascii_Error
             (lit ''Invalid base64-encoded string: number of data characters ('' @
              str_of_nat (n div 3 * 4 + 1) @
              lit '') cannot be 1 more than a multiple of 4''))
         else Inl (binascii_Error (lit ''Incorrect padding'')))
      else Inr [])"
| "a2b_base64_loop quad_pos leftchar pads n (c # cs) =
     (if c = 61 then
        (if quad_pos \<ge> 2 \<and> quad_pos + (pads + 1) \<ge> 4 then Inr []
         else a2b_base64_loop quad_pos leftchar (if quad_pos \<ge> 2 then pads + 1 else pads) n cs)
      else if table_a2b_base64 c \<ge> 64 then a2b_base64_loop quad_pos leftchar pads n cs
      else
        (let this_ch = table_a2b_base64 c in
         if quad_pos = 0 then a2b_base64_loop 1 this_ch 0 n cs
         else
           (case a2b_base64_loop ((quad_pos + 1) mod 4)
                   (if quad_pos = 1 then this_ch mod 16
                    else if quad_pos = 2 then this_ch mod 4 else 0) 0 (n + 1) cs of
              Inl e \<Rightarrow> Inl e
            | Inr r \<Rightarrow>
                Inr ((if quad_pos = 1 then leftchar * 4 + this_ch div 16
                      else if quad_pos = 2 then leftchar * 16 + this_ch div 4
                      else leftchar * 64 + this_ch) # r))))"

definition a2b_base64 :: "bytes \<Rightarrow> exn + bytes" where
  "a2b_base64 s = a2b_base64_loop 0 0 0 0 s"

definition b64decode :: "data \<Rightarrow> exn + bytes" where
  "b64decode s =
     (case bytes_from_decode_data s of
        Inl e \<Rightarrow> Inl e
      | Inr b \<Rightarrow> a2b_base64 b)"

subsection \<open>Base32\<close>

definition b32alphabet :: bytes where
  "b32alphabet = lit ''ABCDEFGHIJKLMNOPQRSTUVWXYZ234567''"

definition b32hexalphabet :: bytes where
  "b32hexalphabet = lit ''0123456789ABCDEFGHIJKLMNOPQRSTUV''"

text \<open>\<open>_b32tab2[alphabet][i]\<close>: the two digits of a ten-bit value.\<close>

definition b32tab2 :: "bytes \<Rightarrow> nat \<Rightarrow> bytes" where
  "b32tab2 alphabet i = [alphabet ! (i div 32), alphabet ! (i mod 32)]"

definition b32encode_quantum :: "bytes \<Rightarrow> bytes \<Rightarrow> bytes" where
  "b32encode_quantum alphabet q =
     (let c = from_bytes q in
      b32tab2 alphabet (c div 2 ^ 30) @
      b32tab2 alphabet (c div 2 ^ 20 mod 1024) @
      b32tab2 alphabet (c div 2 ^ 10 mod 1024) @
      b32tab2 alphabet (c mod 1024))"

definition b32encode_generic :: "bytes \<Rightarrow> bytes \<Rightarrow> bytes" where
  "b32encode_generic alphabet s =
     (let leftover = length s mod 5;
          s' = (if leftover \<noteq> 0 then s @ replicate (5 - leftover) 0 else s);
          encoded = concat (map (b32encode_quantum alphabet) (chunks 5 s'))
      in if leftover = 1 then take (length encoded - 6) encoded @ replicate 6 61
         else if leftover = 2 then take (length encoded - 4) encoded @ replicate 4 61
         else if leftover = 3 then take (length encoded - 3) encoded @ replicate 3 61
         else if leftover = 4 then take (length encoded - 1) encoded @ replicate 1 61
         else encoded)"

definition b32encode :: "bytes \<Rightarrow> bytes" where
  "b32encode s = b32encode_generic b32alphabet s"

definition b32hexencode :: "bytes \<Rightarrow> bytes" where
  "b32hexencode s = b32encode_generic b32hexalphabet s"

text \<open>
  The inner loop of \<open>_b32decode\<close> over one quantum: \<open>acc = (acc << 5) + b32rev[c]\<close>,
  with \<open>None\<close> for the \<open>KeyError\<close> of a byte outside the alphabet.
\<close>

fun b32decode_acc :: "bytes \<Rightarrow> nat \<Rightarrow> bytes \<Rightarrow> nat option" where
  "b32decode_acc alphabet acc [] = Some acc"
| "b32decode_acc alphabet acc (c # cs) =
     (case index_of c alphabet of
        None \<Rightarrow> None
      | Some v \<Rightarrow> b32decode_acc alphabet (acc * 32 + v) cs)"

text \<open>\<open>acc.to_bytes(5)\<close>; \<open>acc\<close> has at most eight digits of five bits, so it fits.\<close>

definition to_bytes5 :: "nat \<Rightarrow> bytes" where
  "to_bytes5 acc =
     [acc div 2 ^ 32 mod 256, acc div 2 ^ 24 mod 256, acc div 2 ^ 16 mod 256,
      acc div 2 ^ 8 mod 256, acc mod 256]"

text \<open>
  The loop over the quanta: the decoded bytes, and the value \<open>acc\<close> has after the last
  quantum (it is used for the padding; 0 stands for the unbound name when there was no
  quantum, in which case nothing is decoded and the value is not read).
\<close>

fun b32decode_quanta :: "bytes \<Rightarrow> bytes list \<Rightarrow> exn + (bytes \<times> nat)" where
  "b32decode_quanta alphabet [] = Inr ([], 0)"
| "b32decode_quanta alphabet (q # qs) =
     (case b32decode_acc alphabet 0 q of
        None \<Rightarrow> Inl (binascii_Error (lit ''Non-base32 digit found''))
      | Some acc \<Rightarrow>
          (case b32decode_quanta alphabet qs of
             Inl e \<Rightarrow> Inl e
           | Inr (decoded, acc') \<Rightarrow>
               Inr (to_bytes5 acc @ decoded, if qs = [] then acc else acc')))"

definition b32decode_generic :: "bytes \<Rightarrow> data \<Rightarrow> exn + bytes" where
  "b32decode_generic alphabet s0 =
     (case bytes_from_decode_data s0 of
        Inl e \<Rightarrow> Inl e
      | Inr s \<Rightarrow>
          if length s mod 8 \<noteq> 0 then Inl (binascii_Error (lit ''Incorrect padding''))
          else
            (let l = length s;
                 s' = rstrip 61 s;
                 padchars = l - length s'
             in case b32decode_quanta alphabet (chunks 8 s') of
                  Inl e \<Rightarrow> Inl e
                | Inr (decoded, acc) \<Rightarrow>
                    if l mod 8 \<noteq> 0 \<or> padchars \<notin> {0, 1, 3, 4, 6}
                    then Inl (binascii_Error (lit ''Incorrect padding''))
                    else if padchars \<noteq> 0 \<and> decoded \<noteq> [] then
                      (let last = to_bytes5 (acc * 2 ^ (5 * padchars));
                           leftover = (43 - 5 * padchars) div 8
                       in Inr (take (length decoded - 5) decoded @ take leftover last))
                    else Inr decoded))"

definition b32decode :: "data \<Rightarrow> exn + bytes" where
  "b32decode s = b32decode_generic b32alphabet s"

definition b32hexdecode :: "data \<Rightarrow> exn + bytes" where
  "b32hexdecode s = b32decode_generic b32hexalphabet s"

subsection \<open>Ascii85 and Base85\<close>

definition a85chars :: bytes where
  "a85chars = [33..<118]"

definition b85alphabet :: bytes where
  "b85alphabet =
     lit ''0123456789ABCDEFGHIJKLMNOPQRSTUVWXYZ'' @
     lit ''abcdefghijklmnopqrstuvwxyz!#$%&()*+-;<=>?@^_`{|}~''"

text \<open>The chunk \<open>_85encode\<close> writes for one 32-bit word.\<close>

definition encode85_word :: "bytes \<Rightarrow> bool \<Rightarrow> bool \<Rightarrow> nat \<Rightarrow> bytes" where
  "encode85_word chars foldnuls foldspaces word =
     (if foldnuls \<and> word = 0 then [122]
      else if foldspaces \<and> word = 0x20202020 then [121]
      else [chars ! (word div 614125 div 85), chars ! (word div 614125 mod 85),
            chars ! (word div 85 mod 7225 div 85), chars ! (word div 85 mod 7225 mod 85),
            chars ! (word mod 85)])"

definition encode85 :: "bytes \<Rightarrow> bytes \<Rightarrow> bool \<Rightarrow> bool \<Rightarrow> bool \<Rightarrow> bytes" where
  "encode85 b chars pad foldnuls foldspaces =
     (let padding = (4 - length b mod 4) mod 4;
          b' = (if padding \<noteq> 0 then b @ replicate padding 0 else b);
          words = map from_bytes (chunks 4 b');
          chunks85 = map (encode85_word chars foldnuls foldspaces) words
      in if padding \<noteq> 0 \<and> \<not> pad then
           (let c = last chunks85;
                c' = (if c = [122] then replicate 5 (chars ! 0) else c)
            in concat (butlast chunks85 @ [take (length c' - padding) c']))
         else concat chunks85)"

definition a85encode :: "bytes \<Rightarrow> bytes" where
  "a85encode b = encode85 b a85chars False True False"

definition b85encode :: "bytes \<Rightarrow> bytes" where
  "b85encode b = encode85 b b85alphabet False False False"

text \<open>
  The loop of \<open>a85decode\<close> (\<open>foldspaces=False\<close>, \<open>adobe=False\<close>, the default
  \<open>ignorechars\<close>): the digits collected so far are \<open>cur\<close>; the result is the decoded
  bytes and the digits left at the end.
\<close>

fun a85decode_loop :: "bytes \<Rightarrow> bytes \<Rightarrow> exn + (bytes \<times> bytes)" where
  "a85decode_loop cur [] = Inr ([], cur)"
| "a85decode_loop cur (x # xs) =
     (if 33 \<le> x \<and> x \<le> 117 then
        (if length (cur @ [x]) = 5 then
           (let acc = foldl (\<lambda>acc x. 85 * acc + (x - 33)) 0 (cur @ [x]) in
            if acc \<ge> 2 ^ 32 then Inl (ValueError (lit ''Ascii85 overflow''))
            else (case a85decode_loop [] xs of
                    Inl e \<Rightarrow> Inl e
                  | Inr (decoded, c) \<Rightarrow> Inr (packI acc @ decoded, c)))
         else a85decode_loop (cur @ [x]) xs)
      else if x = 122 then
        (if cur \<noteq> [] then Inl (ValueError (lit ''z inside Ascii85 5-tuple''))
         else (case a85decode_loop cur xs of
                 Inl e \<Rightarrow> Inl e
               | Inr (decoded, c) \<Rightarrow> Inr ([0, 0, 0, 0] @ decoded, c)))
      else if x = 32 \<or> x = 9 \<or> x = 10 \<or> x = 13 \<or> x = 11 then a85decode_loop cur xs
      else Inl (ValueError (lit ''Non-Ascii85 digit found: '' @ [x])))"

definition a85decode :: "data \<Rightarrow> exn + bytes" where
  "a85decode b0 =
     (case bytes_from_decode_data b0 of
        Inl e \<Rightarrow> Inl e
      | Inr b \<Rightarrow>
          (case a85decode_loop [] (b @ replicate 4 117) of
             Inl e \<Rightarrow> Inl e
           | Inr (result, cur) \<Rightarrow>
               (let padding = 4 - length cur in
                if padding \<noteq> 0 then Inr (take (length result - padding) result)
                else Inr result)))"

text \<open>
  The loop of \<open>b85decode\<close> over the chunks of five digits; \<open>i\<close> is the position of the
  chunk. The inner loop gives \<open>None\<close> at a byte outside the alphabet.
\<close>

fun b85decode_acc :: "nat \<Rightarrow> bytes \<Rightarrow> nat option" where
  "b85decode_acc acc [] = Some acc"
| "b85decode_acc acc (c # cs) =
     (case index_of c b85alphabet of
        None \<Rightarrow> None
      | Some v \<Rightarrow> b85decode_acc (acc * 85 + v) cs)"

fun first_bad :: "bytes \<Rightarrow> nat" where
  "first_bad [] = 0"
| "first_bad (c # cs) = (if index_of c b85alphabet = None then 0 else Suc (first_bad cs))"

fun b85decode_chunks :: "nat \<Rightarrow> bytes list \<Rightarrow> exn + bytes" where
  "b85decode_chunks i [] = Inr []"
| "b85decode_chunks i (chunk # cs) =
     (case b85decode_acc 0 chunk of
        None \<Rightarrow>
          Inl (ValueError (lit ''bad base85 character at position '' @
                 str_of_nat (i + first_bad chunk)))
      | Some acc \<Rightarrow>
          if acc \<ge> 2 ^ 32
          then Inl (ValueError (lit ''base85 overflow in hunk starting at byte '' @
                      str_of_nat i))
          else (case b85decode_chunks (i + 5) cs of
                  Inl e \<Rightarrow> Inl e
                | Inr out \<Rightarrow> Inr (packI acc @ out)))"

definition b85decode :: "data \<Rightarrow> exn + bytes" where
  "b85decode b0 =
     (case bytes_from_decode_data b0 of
        Inl e \<Rightarrow> Inl e
      | Inr b \<Rightarrow>
          (let padding = (5 - length b mod 5) mod 5 in
           case b85decode_chunks 0 (chunks 5 (b @ replicate padding 126)) of
             Inl e \<Rightarrow> Inl e
           | Inr result \<Rightarrow>
               if padding \<noteq> 0 then Inr (take (length result - padding) result)
               else Inr result))"

section \<open>The character encoding\<close>

text \<open>
  \<open>str.encode()\<close> and \<open>bytes.decode()\<close> use UTF-8 with strict error handling. A code
  point can be encoded when it is a Unicode scalar value: below \<open>0x110000\<close> and not a
  surrogate.
\<close>

definition scalar_value :: "nat \<Rightarrow> bool" where
  "scalar_value c \<longleftrightarrow> c < 0xD800 \<or> (0xE000 \<le> c \<and> c < 0x110000)"

definition utf8_char :: "nat \<Rightarrow> bytes" where
  "utf8_char c =
     (if c < 0x80 then [c]
      else if c < 0x800 then [0xC0 + c div 64, 0x80 + c mod 64]
      else if c < 0x10000 then [0xE0 + c div 4096, 0x80 + c div 64 mod 64, 0x80 + c mod 64]
      else [0xF0 + c div 262144, 0x80 + c div 4096 mod 64, 0x80 + c div 64 mod 64,
            0x80 + c mod 64])"

fun str_encode :: "str \<Rightarrow> exn + bytes" where
  "str_encode [] = Inr []"
| "str_encode (c # cs) =
     (if \<not> scalar_value c then Inl UnicodeEncodeError
      else (case str_encode cs of
              Inl e \<Rightarrow> Inl e
            | Inr bs \<Rightarrow> Inr (utf8_char c @ bs)))"

definition continuation :: "nat \<Rightarrow> bool" where
  "continuation b \<longleftrightarrow> 0x80 \<le> b \<and> b < 0xC0"

text \<open>
  Decoding accepts exactly the well-formed sequences: no over-long form, no surrogate,
  nothing above \<open>0x10FFFF\<close>, no truncated sequence.
\<close>

fun bytes_decode :: "bytes \<Rightarrow> exn + str" where
  "bytes_decode [] = Inr []"
| "bytes_decode (b # bs) =
     (if b < 0x80 then
        (case bytes_decode bs of Inl e \<Rightarrow> Inl e | Inr s \<Rightarrow> Inr (b # s))
      else if 0xC2 \<le> b \<and> b < 0xE0 then
        (case bs of
           b1 # r \<Rightarrow>
             if continuation b1 then
               (case bytes_decode r of
                  Inl e \<Rightarrow> Inl e
                | Inr s \<Rightarrow> Inr (((b - 0xC0) * 64 + (b1 - 0x80)) # s))
             else Inl UnicodeDecodeError
         | _ \<Rightarrow> Inl UnicodeDecodeError)
      else if 0xE0 \<le> b \<and> b < 0xF0 then
        (case bs of
           b1 # b2 # r \<Rightarrow>
             (let c = (b - 0xE0) * 4096 + (b1 - 0x80) * 64 + (b2 - 0x80) in
              if continuation b1 \<and> continuation b2 \<and> 0x800 \<le> c \<and>
                 \<not> (0xD800 \<le> c \<and> c < 0xE000) then
                (case bytes_decode r of Inl e \<Rightarrow> Inl e | Inr s \<Rightarrow> Inr (c # s))
              else Inl UnicodeDecodeError)
         | _ \<Rightarrow> Inl UnicodeDecodeError)
      else if 0xF0 \<le> b \<and> b < 0xF5 then
        (case bs of
           b1 # b2 # b3 # r \<Rightarrow>
             (let c = (b - 0xF0) * 262144 + (b1 - 0x80) * 4096 + (b2 - 0x80) * 64 +
                      (b3 - 0x80) in
              if continuation b1 \<and> continuation b2 \<and> continuation b3 \<and>
                 0x10000 \<le> c \<and> c < 0x110000 then
                (case bytes_decode r of Inl e \<Rightarrow> Inl e | Inr s \<Rightarrow> Inr (c # s))
              else Inl UnicodeDecodeError)
         | _ \<Rightarrow> Inl UnicodeDecodeError)
      else Inl UnicodeDecodeError)"

section \<open>MD5\<close>

text \<open>
  The MD5 digest of RFC 1321, which \<open>hashlib.md5(data).digest()\<close> computes: the message
  is padded with the byte \<open>0x80\<close>, zeros and its length in bits, and each block of 64
  bytes updates four 32-bit words in 64 steps.
\<close>

definition md5_K :: "32 word list" where
  "md5_K =
     [
      0xD76AA478, 0xE8C7B756, 0x242070DB, 0xC1BDCEEE,
      0xF57C0FAF, 0x4787C62A, 0xA8304613, 0xFD469501,
      0x698098D8, 0x8B44F7AF, 0xFFFF5BB1, 0x895CD7BE,
      0x6B901122, 0xFD987193, 0xA679438E, 0x49B40821,
      0xF61E2562, 0xC040B340, 0x265E5A51, 0xE9B6C7AA,
      0xD62F105D, 0x02441453, 0xD8A1E681, 0xE7D3FBC8,
      0x21E1CDE6, 0xC33707D6, 0xF4D50D87, 0x455A14ED,
      0xA9E3E905, 0xFCEFA3F8, 0x676F02D9, 0x8D2A4C8A,
      0xFFFA3942, 0x8771F681, 0x6D9D6122, 0xFDE5380C,
      0xA4BEEA44, 0x4BDECFA9, 0xF6BB4B60, 0xBEBFBC70,
      0x289B7EC6, 0xEAA127FA, 0xD4EF3085, 0x04881D05,
      0xD9D4D039, 0xE6DB99E5, 0x1FA27CF8, 0xC4AC5665,
      0xF4292244, 0x432AFF97, 0xAB9423A7, 0xFC93A039,
      0x655B59C3, 0x8F0CCC92, 0xFFEFF47D, 0x85845DD1,
      0x6FA87E4F, 0xFE2CE6E0, 0xA3014314, 0x4E0811A1,
      0xF7537E82, 0xBD3AF235, 0x2AD7D2BB, 0xEB86D391]"

definition md5_S :: "nat list" where
  "md5_S =
     [
      7, 12, 17, 22, 7, 12, 17, 22, 7, 12, 17, 22, 7, 12, 17, 22,
      5, 9, 14, 20, 5, 9, 14, 20, 5, 9, 14, 20, 5, 9, 14, 20,
      4, 11, 16, 23, 4, 11, 16, 23, 4, 11, 16, 23, 4, 11, 16, 23,
      6, 10, 15, 21, 6, 10, 15, 21, 6, 10, 15, 21, 6, 10, 15, 21]"

definition rotl32 :: "32 word \<Rightarrow> nat \<Rightarrow> 32 word" where
  "rotl32 x n = push_bit n x OR drop_bit (32 - n) x"

text \<open>The message words of a block of 64 bytes, little endian.\<close>

definition le_word :: "bytes \<Rightarrow> 32 word" where
  "le_word bs = of_nat (foldr (\<lambda>b acc. b + 256 * acc) bs 0)"

definition le_bytes :: "nat \<Rightarrow> nat \<Rightarrow> bytes" where
  "le_bytes k n = map (\<lambda>i. n div 256 ^ i mod 256) [0..<k]"

definition md5_pad :: "bytes \<Rightarrow> bytes" where
  "md5_pad m =
     m @ [0x80] @ replicate ((119 - length m mod 64) mod 64) 0 @
     le_bytes 8 (8 * length m mod 2 ^ 64)"

type_synonym md5_state = "32 word \<times> 32 word \<times> 32 word \<times> 32 word"

definition md5_step :: "32 word list \<Rightarrow> md5_state \<Rightarrow> nat \<Rightarrow> md5_state" where
  "md5_step M st i =
     (case st of (A, B, C, D) \<Rightarrow>
        (let F = (if i < 16 then (B AND C) OR (NOT B AND D)
                  else if i < 32 then (D AND B) OR (NOT D AND C)
                  else if i < 48 then B XOR C XOR D
                  else C XOR (B OR NOT D));
             g = (if i < 16 then i
                  else if i < 32 then (5 * i + 1) mod 16
                  else if i < 48 then (3 * i + 5) mod 16
                  else (7 * i) mod 16);
             F' = F + A + md5_K ! i + M ! g
         in (D, B + rotl32 F' (md5_S ! i), B, C)))"

definition md5_block :: "md5_state \<Rightarrow> bytes \<Rightarrow> md5_state" where
  "md5_block st block =
     (case st of (a0, b0, c0, d0) \<Rightarrow>
        (case foldl (md5_step (map le_word (chunks 4 block))) st [0..<64] of
           (A, B, C, D) \<Rightarrow> (a0 + A, b0 + B, c0 + C, d0 + D)))"

definition md5_digest :: "bytes \<Rightarrow> bytes" where
  "md5_digest m =
     (case foldl md5_block (0x67452301, 0xEFCDAB89, 0x98BADCFE, 0x10325476)
             (chunks 64 (md5_pad m)) of
        (a, b, c, d) \<Rightarrow>
          le_bytes 4 (unat a) @ le_bytes 4 (unat b) @ le_bytes 4 (unat c) @
          le_bytes 4 (unat d))"

text \<open>
  \<open>hashlib\<close>: MD5 is the function above, the other digests are the runtime's.
  \<open>hexdigest\<close> is the digest in lower-case hexadecimal.
\<close>

definition digest :: "runtime \<Rightarrow> hash_fn \<Rightarrow> bytes \<Rightarrow> bytes" where
  "digest rt h m = (if h = md5 then md5_digest m else digest_ext rt h m)"

definition hexdigest :: "runtime \<Rightarrow> hash_fn \<Rightarrow> bytes \<Rightarrow> str" where
  "hexdigest rt h m = hexlify (digest rt h m)"

section \<open>Command names\<close>

datatype CommandName = HELP | EXIT | ENCODE | DECODE | HASH

text \<open>\<open>CommandName.__members__\<close>: the member names with their values, in definition order.\<close>

definition CommandName_members :: "(str \<times> CommandName) list" where
  "CommandName_members =
     [(lit ''HELP'', HELP), (lit ''EXIT'', EXIT), (lit ''ENCODE'', ENCODE),
      (lit ''DECODE'', DECODE), (lit ''HASH'', HASH)]"

text \<open>The string an f-string puts for a member: \<open>CommandName.HELP\<close> and so on.\<close>

fun CommandName_str :: "CommandName \<Rightarrow> str" where
  "CommandName_str HELP = lit ''CommandName.HELP''"
| "CommandName_str EXIT = lit ''CommandName.EXIT''"
| "CommandName_str ENCODE = lit ''CommandName.ENCODE''"
| "CommandName_str DECODE = lit ''CommandName.DECODE''"
| "CommandName_str HASH = lit ''CommandName.HASH''"

definition str_to_command_name :: "runtime \<Rightarrow> str \<Rightarrow> exn + CommandName" where
  "str_to_command_name rt name =
     (if upper rt name \<notin> set (map fst CommandName_members)
      then Inl (CommandNameConversionError (lit ''Invalid command name: '' @ name))
      else (case map_of CommandName_members (upper rt name) of
              None \<Rightarrow> Inl (KeyError (upper rt name))
            | Some n \<Rightarrow> Inr n))"


section \<open>Commands\<close>

text \<open>
  A command is a dataclass with the field \<open>name\<close>; the five subclasses are the
  constructors. What a command writes with \<open>print\<close> is a list of the values printed:
  a \<open>str\<close>, a \<open>bytes\<close> object (the encode command prints the object the codec
  returns) or an exception. The prompt that \<open>input\<close> writes is not part of it.
  \<open>execute\<close> gives the values printed and the exception raised, if any.
\<close>

datatype Command =
    HelpCommand CommandName
  | ExitCommand CommandName
  | EncodeCommand CommandName
  | DecodeCommand CommandName
  | HashCommand CommandName

fun get_name :: "Command \<Rightarrow> CommandName" where
  "get_name (HelpCommand n) = n"
| "get_name (ExitCommand n) = n"
| "get_name (EncodeCommand n) = n"
| "get_name (DecodeCommand n) = n"
| "get_name (HashCommand n) = n"

datatype out = OutStr str | OutBytes bytes | OutExn exn

type_synonym outcome = "out list \<times> exn option"

definition command_factory :: "CommandName \<Rightarrow> exn + Command" where
  "command_factory name =
     (if name = EXIT then Inr (ExitCommand name)
      else if name = HELP then Inr (HelpCommand name)
      else if name = ENCODE then Inr (EncodeCommand name)
      else if name = DECODE then Inr (DecodeCommand name)
      else if name = HASH then Inr (HashCommand name)
      else Inl (NotImplementedError (lit ''Command not implemented: '' @ CommandName_str name)))"

text \<open>\<open>input_data, algorithm = argv\<close>.\<close>

definition unpack2 :: "str list \<Rightarrow> exn + (str \<times> str)" where
  "unpack2 argv =
     (case argv of
        [a, b] \<Rightarrow> Inr (a, b)
      | _ \<Rightarrow>
          Inl (ValueError
            (if length argv < 2
             then lit ''not enough values to unpack (expected 2, got '' @
                  str_of_nat (length argv) @ lit '')''
             else lit ''too many values to unpack (expected 2)'')))"

text \<open>The text an f-string puts for \<open>dict.keys()\<close> when the keys are plain names.\<close>

definition dict_keys_str :: "str list \<Rightarrow> str" where
  "dict_keys_str ks =
     lit ''dict_keys(['' @ join (lit '', '') (map (\<lambda>k. [39] @ k @ [39]) ks) @ lit ''])''"

subsection \<open>Help and exit\<close>

definition HelpCommand_DOCUMENTATION :: str where
  "HelpCommand_DOCUMENTATION =
     [10, 10] @ lit ''To encode/Decode:'' @ [10] @
     lit ''    Encode/Decode <Text> <Algorithm>'' @ [10] @
     lit ''    Encode/Decode only for help.'' @ [10] @
     lit ''To hash:'' @ [10] @
     lit ''    Hash <Text> <Algorithm>'' @ [10] @
     lit ''    Hash only for help.'' @ [10, 10] @ lit ''    ''"

definition HelpCommand_validate_argv :: "CommandName \<Rightarrow> str list \<Rightarrow> exn option" where
  "HelpCommand_validate_argv name argv =
     (if length argv \<noteq> 0
      then Some (ValueError (lit ''This command takes no arguments: '' @ CommandName_str name))
      else None)"

definition HelpCommand_execute :: "CommandName \<Rightarrow> str list \<Rightarrow> outcome" where
  "HelpCommand_execute name argv =
     (case HelpCommand_validate_argv name argv of
        Some e \<Rightarrow> ([], Some e)
      | None \<Rightarrow> ([OutStr HelpCommand_DOCUMENTATION], None))"

definition ExitCommand_validate_argv :: "CommandName \<Rightarrow> str list \<Rightarrow> exn option" where
  "ExitCommand_validate_argv name argv =
     (if length argv \<noteq> 0
      then Some (ValueError (lit ''This command takes no arguments: '' @ CommandName_str name))
      else None)"

definition ExitCommand_execute :: "CommandName \<Rightarrow> str list \<Rightarrow> outcome" where
  "ExitCommand_execute name argv =
     (case ExitCommand_validate_argv name argv of
        Some e \<Rightarrow> ([], Some e)
      | None \<Rightarrow> ([OutStr (lit ''Exiting...'')], Some (SystemExit 0)))"

subsection \<open>Decode\<close>

definition DecodeCommand_ALGORITHMS :: "(str \<times> (data \<Rightarrow> exn + bytes)) list" where
  "DecodeCommand_ALGORITHMS =
     [(lit ''A85'', a85decode),
      (lit ''BASE16'', b16decode),
      (lit ''BASE32'', b32decode),
      (lit ''BASE32HEX'', b32hexdecode),
      (lit ''BASE64'', b64decode),
      (lit ''BASE85'', b85decode),
      (lit ''HEXLIFY'', unhexlify)]"

definition DecodeCommand_DOCUMENTATION :: str where
  "DecodeCommand_DOCUMENTATION =
     lit ''Syntax: Decode <InputText> < '' @
     join (lit '' | '') (map fst DecodeCommand_ALGORITHMS) @ lit '' >''"

definition DecodeCommand_validate_argv ::
  "runtime \<Rightarrow> CommandName \<Rightarrow> str list \<Rightarrow> exn option" where
  "DecodeCommand_validate_argv rt name argv =
     (if length argv \<noteq> 2
      then Some (ValueError
             (lit ''This command takes exactly 2 arguments: '' @ CommandName_str name))
      else (case unpack2 argv of
              Inl e \<Rightarrow> Some e
            | Inr (_, algorithm) \<Rightarrow>
                if strip (upper rt algorithm) \<notin> set (map fst DecodeCommand_ALGORITHMS)
                then Some (ValueError
                       (lit ''Invalid algorithm name: '' @ algorithm @ lit '';'' @
                        lit ''Available algorithms: '' @
                        dict_keys_str (map fst DecodeCommand_ALGORITHMS)))
                else None))"

definition DecodeCommand_execute :: "runtime \<Rightarrow> CommandName \<Rightarrow> str list \<Rightarrow> outcome" where
  "DecodeCommand_execute rt name argv =
     (if length argv = 0 then ([OutStr DecodeCommand_DOCUMENTATION], None)
      else (case DecodeCommand_validate_argv rt name argv of
              Some e \<Rightarrow> ([], Some e)
            | None \<Rightarrow>
                (case unpack2 argv of
                   Inl e \<Rightarrow> ([], Some e)
                 | Inr (input_data, algorithm) \<Rightarrow>
                     (case map_of DecodeCommand_ALGORITHMS (strip (upper rt algorithm)) of
                        None \<Rightarrow> ([], Some (KeyError (strip (upper rt algorithm))))
                      | Some func \<Rightarrow>
                          (case func (Str input_data) of
                             Inl e \<Rightarrow> ([], Some e)
                           | Inr b \<Rightarrow>
                               (case bytes_decode b of
                                  Inl e \<Rightarrow> ([], Some e)
                                | Inr s \<Rightarrow> ([OutStr s], None)))))))"

subsection \<open>Encode\<close>

definition EncodeCommand_ALGORITHMS :: "(str \<times> (bytes \<Rightarrow> bytes)) list" where
  "EncodeCommand_ALGORITHMS =
     [(lit ''A85'', a85encode),
      (lit ''BASE16'', b16encode),
      (lit ''BASE32'', b32encode),
      (lit ''BASE32HEX'', b32hexencode),
      (lit ''BASE64'', b64encode),
      (lit ''BASE85'', b85encode),
      (lit ''HEXLIFY'', hexlify)]"

definition EncodeCommand_DOCUMENTATION :: str where
  "EncodeCommand_DOCUMENTATION =
     lit ''Syntax: Encode <InputText> < '' @
     join (lit '' | '') (map fst EncodeCommand_ALGORITHMS) @ lit '' > ''"

definition EncodeCommand_validate_argv ::
  "runtime \<Rightarrow> CommandName \<Rightarrow> str list \<Rightarrow> exn option" where
  "EncodeCommand_validate_argv rt name argv =
     (if length argv \<noteq> 2
      then Some (ValueError
             (lit ''This command takes exactly 2 arguments: '' @ CommandName_str name))
      else (case unpack2 argv of
              Inl e \<Rightarrow> Some e
            | Inr (_, algorithm) \<Rightarrow>
                if strip (upper rt algorithm) \<notin> set (map fst EncodeCommand_ALGORITHMS)
                then Some (ValueError
                       (lit ''Invalid algorithm name: '' @ algorithm @ lit '';'' @
                        lit ''Available algorithms: '' @
                        dict_keys_str (map fst EncodeCommand_ALGORITHMS)))
                else None))"

definition EncodeCommand_execute :: "runtime \<Rightarrow> CommandName \<Rightarrow> str list \<Rightarrow> outcome" where
  "EncodeCommand_execute rt name argv =
     (if length argv = 0 then ([OutStr EncodeCommand_DOCUMENTATION], None)
      else (case EncodeCommand_validate_argv rt name argv of
              Some e \<Rightarrow> ([], Some e)
            | None \<Rightarrow>
                (case unpack2 argv of
                   Inl e \<Rightarrow> ([], Some e)
                 | Inr (input_data, algorithm) \<Rightarrow>
                     (case map_of EncodeCommand_ALGORITHMS (strip (upper rt algorithm)) of
                        None \<Rightarrow> ([], Some (KeyError (strip (upper rt algorithm))))
                      | Some func \<Rightarrow>
                          (case str_encode input_data of
                             Inl e \<Rightarrow> ([], Some e)
                           | Inr input_data_bytes \<Rightarrow>
                               ([OutBytes (func input_data_bytes)], None))))))"

subsection \<open>Hash\<close>

definition HashCommand_ALGORITHMS :: "(str \<times> hash_fn) list" where
  "HashCommand_ALGORITHMS =
     [(lit ''BLAKE2B'', blake2b),
      (lit ''BLAKE2S'', blake2s),
      (lit ''MD5'', md5),
      (lit ''SHA1'', sha1),
      (lit ''SHA224'', sha224),
      (lit ''SHA256'', sha256),
      (lit ''SHA384'', sha384),
      (lit ''SHA3_224'', sha3_224),
      (lit ''SHA3_256'', sha3_256),
      (lit ''SHA3_384'', sha3_384),
      (lit ''SHA3_512'', sha3_512),
      (lit ''SHA512'', sha512)]"

definition HashCommand_DOCUMENTATION :: str where
  "HashCommand_DOCUMENTATION =
     lit ''Syntax: Hash <InputText> < '' @
     join (lit '' | '') (map fst HashCommand_ALGORITHMS) @ lit '' >''"

text \<open>The membership test of the hash command upper-cases the name and does not strip it.\<close>

definition HashCommand_validate_argv ::
  "runtime \<Rightarrow> CommandName \<Rightarrow> str list \<Rightarrow> exn option" where
  "HashCommand_validate_argv rt name argv =
     (if length argv \<noteq> 2
      then Some (ValueError
             (lit ''This command takes exactly 2 arguments: '' @ CommandName_str name))
      else (case unpack2 argv of
              Inl e \<Rightarrow> Some e
            | Inr (_, algorithm) \<Rightarrow>
                if upper rt algorithm \<notin> set (map fst HashCommand_ALGORITHMS)
                then Some (ValueError
                       (lit ''Invalid algorithm name: '' @ algorithm @
                        lit ''; Available algorithms: '' @
                        dict_keys_str (map fst HashCommand_ALGORITHMS)))
                else None))"

definition HashCommand_execute :: "runtime \<Rightarrow> CommandName \<Rightarrow> str list \<Rightarrow> outcome" where
  "HashCommand_execute rt name argv =
     (if length argv = 0 then ([OutStr HashCommand_DOCUMENTATION], None)
      else (case HashCommand_validate_argv rt name argv of
              Some e \<Rightarrow> ([], Some e)
            | None \<Rightarrow>
                (case unpack2 argv of
                   Inl e \<Rightarrow> ([], Some e)
                 | Inr (input_data, algorithm) \<Rightarrow>
                     (case str_encode input_data of
                        Inl e \<Rightarrow> ([], Some e)
                      | Inr input_data_bytes \<Rightarrow>
                          (case map_of HashCommand_ALGORITHMS (strip (upper rt algorithm)) of
                             None \<Rightarrow> ([], Some (KeyError (strip (upper rt algorithm))))
                           | Some hashing_fn \<Rightarrow>
                               ([OutStr (hexdigest rt hashing_fn input_data_bytes)],
                                None))))))"

text \<open>The method \<open>execute\<close> of a command object.\<close>

fun execute :: "runtime \<Rightarrow> Command \<Rightarrow> str list \<Rightarrow> outcome" where
  "execute rt (HelpCommand name) argv = HelpCommand_execute name argv"
| "execute rt (ExitCommand name) argv = ExitCommand_execute name argv"
| "execute rt (EncodeCommand name) argv = EncodeCommand_execute rt name argv"
| "execute rt (DecodeCommand name) argv = DecodeCommand_execute rt name argv"
| "execute rt (HashCommand name) argv = HashCommand_execute rt name argv"

section \<open>The shell\<close>

record Shell =
  supported_commands :: "CommandName \<rightharpoonup> Command"

text \<open>
  The dictionary comprehension of \<open>Shell.__init__\<close>: one call of \<open>command_factory\<close> for
  each member of \<open>CommandName\<close>, in definition order.
\<close>

fun build_commands ::
  "CommandName list \<Rightarrow> (CommandName \<rightharpoonup> Command) \<Rightarrow> exn + (CommandName \<rightharpoonup> Command)" where
  "build_commands [] m = Inr m"
| "build_commands (name # names) m =
     (case command_factory name of
        Inl e \<Rightarrow> Inl e
      | Inr c \<Rightarrow> build_commands names (m(name \<mapsto> c)))"

definition Shell_init :: "exn + Shell" where
  "Shell_init =
     (case build_commands (map snd CommandName_members) Map.empty of
        Inl e \<Rightarrow> Inl e
      | Inr m \<Rightarrow> Inr \<lparr>supported_commands = m\<rparr>)"

text \<open>\<open>Shell._parse_cmd\<close>. The arguments are computed before the name is resolved.\<close>

definition parse_argv :: "str list \<Rightarrow> str list" where
  "parse_argv input_elements = map strip (tl input_elements)"

definition parse_cmd :: "runtime \<Rightarrow> str \<Rightarrow> exn + (CommandName \<times> str list)" where
  "parse_cmd rt cmd =
     (let input_elements = split_space cmd in
      case input_elements of
        [] \<Rightarrow> Inl IndexError
      | first # _ \<Rightarrow>
          (let binary = upper rt (strip first);
               argv = parse_argv input_elements
           in case str_to_command_name rt binary of
                Inl e \<Rightarrow> Inl e
              | Inr command_name \<Rightarrow> Inr (command_name, argv)))"

text \<open>
  The state of a session: the shell object and what has been printed so far.
  \<open>execute_command\<close> and the loop take the state and give the new one.
\<close>

record state =
  shell :: Shell
  printed :: "out list"

definition execute_command :: "runtime \<Rightarrow> state \<Rightarrow> str \<Rightarrow> state \<times> exn option" where
  "execute_command rt st cmd =
     (case parse_cmd rt cmd of
        Inl e \<Rightarrow> (st, Some e)
      | Inr (command_name, argv) \<Rightarrow>
          (case supported_commands (shell st) command_name of
             None \<Rightarrow> (st, Some (KeyError (CommandName_str command_name)))
           | Some c \<Rightarrow>
               (case execute rt c argv of
                  (outs, r) \<Rightarrow> (st\<lparr>printed := printed st @ outs\<rparr>, r))))"

text \<open>
  One iteration of the loop of \<open>enter_command_to_execute\<close> on the line read: the
  \<open>except\<close> clause catches \<open>CommandNameConversionError\<close> and \<open>ValueError\<close>, prints the
  exception and continues; any other exception leaves the loop.
\<close>

datatype status = Continue | Propagate exn

definition loop_body :: "runtime \<Rightarrow> state \<Rightarrow> str \<Rightarrow> state \<times> status" where
  "loop_body rt st user_input =
     (case execute_command rt st user_input of
        (st', None) \<Rightarrow> (st', Continue)
      | (st', Some error) \<Rightarrow>
          if isinstance_CommandNameConversionError error \<or> isinstance_ValueError error
          then (st'\<lparr>printed := printed st' @ [OutExn error]\<rparr>, Continue)
          else (st', Propagate error))"

text \<open>
  The loop over the lines of standard input. It has no \<open>break\<close> and no \<open>return\<close>: it
  ends only with an exception, which is \<open>EOFError\<close> when the input is exhausted.
\<close>

fun enter_command_to_execute :: "runtime \<Rightarrow> state \<Rightarrow> str list \<Rightarrow> state \<times> exn" where
  "enter_command_to_execute rt st [] = (st, EOFError)"
| "enter_command_to_execute rt st (user_input # rest) =
     (case loop_body rt st user_input of
        (st', Continue) \<Rightarrow> enter_command_to_execute rt st' rest
      | (st', Propagate e) \<Rightarrow> (st', e))"

text \<open>
  \<open>main\<close> prints the banner, builds the shell and enters the loop; the loop never
  returns, so the outer \<open>while True\<close> never runs it a second time. The result is what
  was printed and the exception that ends the process; the process exits with the code of
  a \<open>SystemExit\<close> and with 1 after any other exception.
\<close>

definition DOC :: str where
  "DOC =
     [10, 10] @ [27] @ lit ''[33m'' @ [10, 10] @
     lit ''Original Author: Hossin azmoud (Moody0101)'' @ [10] @
     lit ''Date: 10/18/2022'' @ [10] @
     lit ''LICENCE: MIT'' @ [10] @
     lit ''Language: '' @ [27] @ lit ''[36m'' @ lit ''Python3.10 '' @ [27] @ lit ''[33m'' @ [10] @
     lit ''Descripion: A tool to hash, encode, decode text.'' @ [10] @
     lit ''command: hash, encode, decode, help, exit'' @ [10] @
     lit ''Usage:'' @ [10] @
     lit ''    To encode/Decode:'' @ [10] @
     lit ''        Encode/Decode <Text> <Algorithm>'' @ [10] @
     lit ''        Encode/Decode only for help.'' @ [10] @
     lit ''    To hash:'' @ [10] @
     lit ''        Hash <Text> <Algorithm>'' @ [10] @
     lit ''        Hash only for help.'' @ [10]"

definition main :: "runtime \<Rightarrow> str list \<Rightarrow> out list \<times> exn" where
  "main rt stdin =
     (case Shell_init of
        Inl e \<Rightarrow> ([OutStr DOC], e)
      | Inr sh \<Rightarrow>
          (case enter_command_to_execute rt \<lparr>shell = sh, printed = [OutStr DOC]\<rparr> stdin of
             (st, e) \<Rightarrow> (printed st, e)))"

definition exit_status :: "exn \<Rightarrow> int" where
  "exit_status e = (case e of SystemExit code \<Rightarrow> code | _ \<Rightarrow> 1)"

text \<open>
  A runtime for closed instances: its case table keeps every code point and its external
  digests are empty. The instances below run the program on ASCII input and select no
  digest but MD5, so neither field is ever consulted in them
  (\<open>upper_ascii\<close> below states this for \<open>upper\<close>).
\<close>

definition ascii_runtime :: runtime where
  "ascii_runtime = \<lparr>upper_ext = (\<lambda>c. [c]), digest_ext = (\<lambda>h b. [])\<rparr>"

section \<open>Properties of the string methods\<close>

lemma upper_Nil [simp]: "upper rt [] = []"
  by (simp add: upper_def)

lemma upper_Cons: "upper rt (c # cs) = upper_char rt c @ upper rt cs"
  by (simp add: upper_def)

lemma upper_append: "upper rt (xs @ ys) = upper rt xs @ upper rt ys"
  by (simp add: upper_def)

lemma upper_char_ascii:
  "c < 128 \<Longrightarrow> upper_char rt c = [if 97 \<le> c \<and> c \<le> 122 then c - 32 else c]"
  by (simp add: upper_char_def)

lemma upper_ascii: "list_all (\<lambda>c. c < 128) s \<Longrightarrow> upper rt s = upper rt' s"
  by (induction s) (simp_all add: upper_Cons upper_char_ascii)

lemma upper_Cons_ascii:
  "c < 128 \<Longrightarrow>
     upper rt (c # cs) = (if 97 \<le> c \<and> c \<le> 122 then c - 32 else c) # upper rt cs"
  by (simp add: upper_Cons upper_char_ascii)

section \<open>Resolving a command name\<close>

lemma CommandName_members_keys:
  "map fst CommandName_members =
     [lit ''HELP'', lit ''EXIT'', lit ''ENCODE'', lit ''DECODE'', lit ''HASH'']"
  by (simp add: CommandName_members_def)

lemma str_to_command_name_eq:
  "str_to_command_name rt name =
     (case map_of CommandName_members (upper rt name) of
        None \<Rightarrow> Inl (CommandNameConversionError (lit ''Invalid command name: '' @ name))
      | Some n \<Rightarrow> Inr n)"
proof (cases "map_of CommandName_members (upper rt name)")
  case None
  then have "upper rt name \<notin> set (map fst CommandName_members)"
    by (simp add: map_of_eq_None_iff)
  with None show ?thesis
    by (simp add: str_to_command_name_def)
next
  case (Some n)
  then have "upper rt name \<in> set (map fst CommandName_members)"
    by (metis map_of_eq_None_iff option.distinct(1) set_map)
  with Some show ?thesis
    by (simp add: str_to_command_name_def)
qed

lemma split_space_not_Nil: "split_space s \<noteq> []"
  by (induction s) (simp_all split: list.splits)

lemma parse_cmd_eq:
  "parse_cmd rt cmd =
     (case str_to_command_name rt (upper rt (strip (hd (split_space cmd)))) of
        Inl e \<Rightarrow> Inl e
      | Inr n \<Rightarrow> Inr (n, map strip (tl (split_space cmd))))"
proof (cases "split_space cmd")
  case Nil
  then show ?thesis by (simp add: split_space_not_Nil)
next
  case (Cons first rest)
  then show ?thesis
    by (simp add: parse_cmd_def parse_argv_def Let_def split: sum.splits)
qed

text \<open>
  C3 (as the code has it). \<open>str_to_command_name\<close> upper-cases its token and does not
  trim it; \<open>Shell._parse_cmd\<close> trims the token before the call. Resolution is
  case-insensitive: \<open>HELP\<close>, \<open>help\<close> and \<open>HeLp\<close> resolve to the same member, and two
  tokens with the same upper-case form resolve alike. A token whose upper-case form is
  the name of a member resolves to that member; every other token raises
  \<open>CommandNameConversionError\<close>, whose message carries the token as it was given.
  \<open>parse_cmd\<close> resolves the first word of the line after trimming it and upper-casing
  it, passes an error of the resolution on, and returns the trimmed remaining words as
  the arguments otherwise.
\<close>

theorem str_to_command_name_upper:
  "str_to_command_name rt (lit ''HELP'') = Inr HELP \<and>
   str_to_command_name rt (lit ''help'') = Inr HELP \<and>
   str_to_command_name rt (lit ''HeLp'') = Inr HELP \<and>
   (upper rt a = upper rt b \<longrightarrow>
      (str_to_command_name rt a = Inr n \<longleftrightarrow> str_to_command_name rt b = Inr n)) \<and>
   ((k, m) \<in> set CommandName_members \<and> upper rt name = k \<longrightarrow>
      str_to_command_name rt name = Inr m) \<and>
   (upper rt name \<notin> set (map fst CommandName_members) \<longrightarrow>
      str_to_command_name rt name =
        Inl (CommandNameConversionError (lit ''Invalid command name: '' @ name))) \<and>
   parse_cmd rt cmd =
     (case str_to_command_name rt (upper rt (strip (hd (split_space cmd)))) of
        Inl e \<Rightarrow> Inl e
      | Inr c \<Rightarrow> Inr (c, map strip (tl (split_space cmd))))"
proof -
  have lits: "str_to_command_name rt (lit ''HELP'') = Inr HELP"
    "str_to_command_name rt (lit ''help'') = Inr HELP"
    "str_to_command_name rt (lit ''HeLp'') = Inr HELP"
    by (simp_all add: str_to_command_name_eq CommandName_members_def upper_Cons_ascii)
  have same: "upper rt a = upper rt b \<longrightarrow>
      (str_to_command_name rt a = Inr n \<longleftrightarrow> str_to_command_name rt b = Inr n)"
    by (simp add: str_to_command_name_eq split: option.splits)
  have hit: "(k, m) \<in> set CommandName_members \<and> upper rt name = k \<longrightarrow>
      str_to_command_name rt name = Inr m"
  proof
    assume h: "(k, m) \<in> set CommandName_members \<and> upper rt name = k"
    have "distinct (map fst CommandName_members)"
      by (simp add: CommandName_members_def)
    with h have "map_of CommandName_members (upper rt name) = Some m"
      by simp
    then show "str_to_command_name rt name = Inr m"
      by (simp add: str_to_command_name_eq)
  qed
  have miss: "upper rt name \<notin> set (map fst CommandName_members) \<longrightarrow>
      str_to_command_name rt name =
        Inl (CommandNameConversionError (lit ''Invalid command name: '' @ name))"
    by (simp add: str_to_command_name_def)
  have parse: "parse_cmd rt cmd =
     (case str_to_command_name rt (upper rt (strip (hd (split_space cmd)))) of
        Inl e \<Rightarrow> Inl e
      | Inr c \<Rightarrow> Inr (c, map strip (tl (split_space cmd))))"
    by (rule parse_cmd_eq)
  from lits same hit miss parse show ?thesis by blast
qed

theorem str_to_command_name_upper_witness:
  "str_to_command_name ascii_runtime (lit ''exit'') = Inr EXIT \<and>
   str_to_command_name ascii_runtime (lit ''Exit'') = Inr EXIT \<and>
   str_to_command_name ascii_runtime (lit ''foo'') =
     Inl (CommandNameConversionError (lit ''Invalid command name: foo'')) \<and>
   parse_cmd ascii_runtime (lit ''help'' @ [9]) = Inr (HELP, []) \<and>
   parse_cmd ascii_runtime (lit '' Exit a  b'') =
     Inl (CommandNameConversionError (lit ''Invalid command name: ''))"
proof -
  have u1: "upper ascii_runtime (lit ''exit'') = lit ''EXIT''"
    by (simp add: upper_Cons_ascii)
  have u2: "upper ascii_runtime (lit ''Exit'') = lit ''EXIT''"
    by (simp add: upper_Cons_ascii)
  have u3: "upper ascii_runtime (lit ''foo'') = lit ''FOO''"
    by (simp add: upper_Cons_ascii)
  have mem: "(lit ''EXIT'', EXIT) \<in> set CommandName_members"
    by (simp add: CommandName_members_def)
  have nomem: "upper ascii_runtime (lit ''foo'') \<notin> set (map fst CommandName_members)"
    by (simp add: upper_Cons_ascii CommandName_members_keys)
  have same: "upper ascii_runtime (lit ''Exit'') = upper ascii_runtime (lit ''exit'')"
    by (simp add: upper_Cons_ascii)
  note thm1 = str_to_command_name_upper
    [of ascii_runtime "lit ''Exit''" "lit ''exit''" EXIT "lit ''EXIT''" EXIT "lit ''exit''"
        "lit ''help'' @ [9]"]
  note thm2 = str_to_command_name_upper
    [of ascii_runtime "lit ''Exit''" "lit ''exit''" EXIT "lit ''EXIT''" EXIT "lit ''foo''"
        "lit '' Exit a  b''"]
  from thm1 mem u1 have e1: "str_to_command_name ascii_runtime (lit ''exit'') = Inr EXIT"
    by blast
  from thm1 same e1 have e2: "str_to_command_name ascii_runtime (lit ''Exit'') = Inr EXIT"
    by blast
  from thm2 nomem have e3: "str_to_command_name ascii_runtime (lit ''foo'') =
     Inl (CommandNameConversionError (lit ''Invalid command name: foo''))"
    by simp
  from thm1 have "parse_cmd ascii_runtime (lit ''help'' @ [9]) =
     (case str_to_command_name ascii_runtime
             (upper ascii_runtime (strip (hd (split_space (lit ''help'' @ [9]))))) of
        Inl e \<Rightarrow> Inl e
      | Inr c \<Rightarrow> Inr (c, map strip (tl (split_space (lit ''help'' @ [9])))))"
    by blast
  then have e4: "parse_cmd ascii_runtime (lit ''help'' @ [9]) = Inr (HELP, [])"
    by (simp add: strip_def isspace_def upper_Cons_ascii str_to_command_name_eq
        CommandName_members_def)
  from thm2 have "parse_cmd ascii_runtime (lit '' Exit a  b'') =
     (case str_to_command_name ascii_runtime
             (upper ascii_runtime (strip (hd (split_space (lit '' Exit a  b''))))) of
        Inl e \<Rightarrow> Inl e
      | Inr c \<Rightarrow> Inr (c, map strip (tl (split_space (lit '' Exit a  b'')))))"
    by blast
  then have e5: "parse_cmd ascii_runtime (lit '' Exit a  b'') =
     Inl (CommandNameConversionError (lit ''Invalid command name: ''))"
    by (simp add: strip_def isspace_def upper_Cons_ascii str_to_command_name_eq
        CommandName_members_def)
  from e1 e2 e3 e4 e5 show ?thesis by blast
qed

text \<open>
  The token \<open>help\<close> followed by a space is not trimmed by \<open>str_to_command_name\<close>: the
  call raises, although the trimmed token resolves.
\<close>

theorem str_to_command_name_no_trim:
  "str_to_command_name ascii_runtime (lit ''help '') =
     Inl (CommandNameConversionError (lit ''Invalid command name: help '')) \<and>
   str_to_command_name ascii_runtime (strip (lit ''help '')) = Inr HELP"
proof -
  have "str_to_command_name ascii_runtime (lit ''help '') =
     Inl (CommandNameConversionError (lit ''Invalid command name: help ''))"
    by (simp add: str_to_command_name_def upper_Cons_ascii CommandName_members_keys)
  moreover have "str_to_command_name ascii_runtime (strip (lit ''help '')) = Inr HELP"
    by (simp add: strip_def isspace_def str_to_command_name_eq CommandName_members_def
        upper_Cons_ascii)
  ultimately show ?thesis by blast
qed

section \<open>The shell object\<close>

lemma Shell_init_eq:
  "Shell_init =
     Inr \<lparr>supported_commands =
            [HELP \<mapsto> HelpCommand HELP, EXIT \<mapsto> ExitCommand EXIT,
             ENCODE \<mapsto> EncodeCommand ENCODE, DECODE \<mapsto> DecodeCommand DECODE,
             HASH \<mapsto> HashCommand HASH]\<rparr>"
  by (simp add: Shell_init_def CommandName_members_def command_factory_def)

lemma execute_command_shell: "shell (fst (execute_command rt st cmd)) = shell st"
  by (simp add: execute_command_def split: sum.splits prod.splits option.splits)

lemma loop_body_shell: "shell (fst (loop_body rt st cmd)) = shell st"
proof -
  have "shell (fst (execute_command rt st cmd)) = shell st"
    by (rule execute_command_shell)
  then show ?thesis
    by (auto simp add: loop_body_def split: prod.splits option.splits)
qed

lemma enter_command_to_execute_shell:
  "shell (fst (enter_command_to_execute rt st lines)) = shell st"
proof (induction lines arbitrary: st)
  case Nil
  show ?case by simp
next
  case (Cons l ls)
  obtain st' r where lb: "loop_body rt st l = (st', r)"
    by (cases "loop_body rt st l")
  have sh: "shell st' = shell st"
    using loop_body_shell [of rt st l] lb by simp
  show ?case
  proof (cases r)
    case Continue
    with lb Cons.IH [of st'] sh show ?thesis by simp
  next
    case (Propagate e)
    with lb sh show ?thesis by simp
  qed
qed

text \<open>
  C8. The constructor of the shell succeeds, and the mapping it builds assigns to each
  member of \<open>CommandName\<close> the command object of the matching class, which carries
  that name: \<open>HELP\<close> the help command, \<open>EXIT\<close> the exit command, \<open>ENCODE\<close> the
  encode command, \<open>DECODE\<close> the decode command and \<open>HASH\<close> the hash command.
  Executing a command, one iteration of the loop and the whole loop leave the shell
  object, and so the mapping, as it was.
\<close>

theorem supported_commands_invariant:
  "(\<exists>sh. Shell_init = Inr sh \<and>
      supported_commands sh HELP = Some (HelpCommand HELP) \<and>
      supported_commands sh EXIT = Some (ExitCommand EXIT) \<and>
      supported_commands sh ENCODE = Some (EncodeCommand ENCODE) \<and>
      supported_commands sh DECODE = Some (DecodeCommand DECODE) \<and>
      supported_commands sh HASH = Some (HashCommand HASH) \<and>
      (\<forall>n. \<exists>c. supported_commands sh n = Some c \<and> get_name c = n)) \<and>
   shell (fst (execute_command rt st cmd)) = shell st \<and>
   shell (fst (loop_body rt st cmd)) = shell st \<and>
   shell (fst (enter_command_to_execute rt st lines)) = shell st"
proof -
  let ?sh = "\<lparr>supported_commands =
            [HELP \<mapsto> HelpCommand HELP, EXIT \<mapsto> ExitCommand EXIT,
             ENCODE \<mapsto> EncodeCommand ENCODE, DECODE \<mapsto> DecodeCommand DECODE,
             HASH \<mapsto> HashCommand HASH]\<rparr>"
  have all: "\<exists>c. supported_commands ?sh n = Some c \<and> get_name c = n" for n
    by (cases n) simp_all
  have ex: "Shell_init = Inr ?sh \<and>
      supported_commands ?sh HELP = Some (HelpCommand HELP) \<and>
      supported_commands ?sh EXIT = Some (ExitCommand EXIT) \<and>
      supported_commands ?sh ENCODE = Some (EncodeCommand ENCODE) \<and>
      supported_commands ?sh DECODE = Some (DecodeCommand DECODE) \<and>
      supported_commands ?sh HASH = Some (HashCommand HASH) \<and>
      (\<forall>n. \<exists>c. supported_commands ?sh n = Some c \<and> get_name c = n)"
    using all by (simp add: Shell_init_eq)
  show ?thesis
  proof (intro conjI)
    show "\<exists>sh. Shell_init = Inr sh \<and>
      supported_commands sh HELP = Some (HelpCommand HELP) \<and>
      supported_commands sh EXIT = Some (ExitCommand EXIT) \<and>
      supported_commands sh ENCODE = Some (EncodeCommand ENCODE) \<and>
      supported_commands sh DECODE = Some (DecodeCommand DECODE) \<and>
      supported_commands sh HASH = Some (HashCommand HASH) \<and>
      (\<forall>n. \<exists>c. supported_commands sh n = Some c \<and> get_name c = n)"
      using ex by (rule exI [of _ ?sh])
    show "shell (fst (execute_command rt st cmd)) = shell st"
      by (rule execute_command_shell)
    show "shell (fst (loop_body rt st cmd)) = shell st"
      by (rule loop_body_shell)
    show "shell (fst (enter_command_to_execute rt st lines)) = shell st"
      by (rule enter_command_to_execute_shell)
  qed
qed

section \<open>The usage lines\<close>

lemma EncodeCommand_DOCUMENTATION_eq:
  "EncodeCommand_DOCUMENTATION =
     lit ''Syntax: Encode <InputText> < A85 | BASE16 | BASE32 | BASE32HEX | BASE64 | BASE85 | HEXLIFY > ''"
  by (simp add: EncodeCommand_DOCUMENTATION_def EncodeCommand_ALGORITHMS_def)

lemma DecodeCommand_DOCUMENTATION_eq:
  "DecodeCommand_DOCUMENTATION =
     lit ''Syntax: Decode <InputText> < A85 | BASE16 | BASE32 | BASE32HEX | BASE64 | BASE85 | HEXLIFY >''"
  by (simp add: DecodeCommand_DOCUMENTATION_def DecodeCommand_ALGORITHMS_def)

lemma HashCommand_DOCUMENTATION_eq:
  "HashCommand_DOCUMENTATION =
     lit ''Syntax: Hash <InputText> < BLAKE2B | BLAKE2S | MD5 | SHA1 | SHA224 | SHA256 | SHA384 | SHA3_224 | SHA3_256 | SHA3_384 | SHA3_512 | SHA512 >''"
  by (simp add: HashCommand_DOCUMENTATION_def HashCommand_ALGORITHMS_def)

text \<open>
  C4. With an empty argument list the encode, decode and hash commands print their
  usage line and nothing else, and return without an exception. The usage line is built
  from the names of the command's algorithm table, in the order of the table, separated
  by \<open>|\<close>; the three lines are written out.
\<close>

theorem execute_no_arguments:
  "execute rt (EncodeCommand n) [] = ([OutStr EncodeCommand_DOCUMENTATION], None) \<and>
   execute rt (DecodeCommand n) [] = ([OutStr DecodeCommand_DOCUMENTATION], None) \<and>
   execute rt (HashCommand n) [] = ([OutStr HashCommand_DOCUMENTATION], None) \<and>
   EncodeCommand_DOCUMENTATION =
     lit ''Syntax: Encode <InputText> < '' @
     join (lit '' | '') (map fst EncodeCommand_ALGORITHMS) @ lit '' > '' \<and>
   DecodeCommand_DOCUMENTATION =
     lit ''Syntax: Decode <InputText> < '' @
     join (lit '' | '') (map fst DecodeCommand_ALGORITHMS) @ lit '' >'' \<and>
   HashCommand_DOCUMENTATION =
     lit ''Syntax: Hash <InputText> < '' @
     join (lit '' | '') (map fst HashCommand_ALGORITHMS) @ lit '' >'' \<and>
   EncodeCommand_DOCUMENTATION =
     lit ''Syntax: Encode <InputText> < A85 | BASE16 | BASE32 | BASE32HEX | BASE64 | BASE85 | HEXLIFY > '' \<and>
   DecodeCommand_DOCUMENTATION =
     lit ''Syntax: Decode <InputText> < A85 | BASE16 | BASE32 | BASE32HEX | BASE64 | BASE85 | HEXLIFY >'' \<and>
   HashCommand_DOCUMENTATION =
     lit ''Syntax: Hash <InputText> < BLAKE2B | BLAKE2S | MD5 | SHA1 | SHA224 | SHA256 | SHA384 | SHA3_224 | SHA3_256 | SHA3_384 | SHA3_512 | SHA512 >''"
proof -
  have e: "execute rt (EncodeCommand n) [] = ([OutStr EncodeCommand_DOCUMENTATION], None)"
    by (simp add: EncodeCommand_execute_def)
  have d: "execute rt (DecodeCommand n) [] = ([OutStr DecodeCommand_DOCUMENTATION], None)"
    by (simp add: DecodeCommand_execute_def)
  have h: "execute rt (HashCommand n) [] = ([OutStr HashCommand_DOCUMENTATION], None)"
    by (simp add: HashCommand_execute_def)
  have e1: "EncodeCommand_DOCUMENTATION =
     lit ''Syntax: Encode <InputText> < '' @
     join (lit '' | '') (map fst EncodeCommand_ALGORITHMS) @ lit '' > ''"
    by (simp only: EncodeCommand_DOCUMENTATION_def)
  have d1: "DecodeCommand_DOCUMENTATION =
     lit ''Syntax: Decode <InputText> < '' @
     join (lit '' | '') (map fst DecodeCommand_ALGORITHMS) @ lit '' >''"
    by (simp only: DecodeCommand_DOCUMENTATION_def)
  have h1: "HashCommand_DOCUMENTATION =
     lit ''Syntax: Hash <InputText> < '' @
     join (lit '' | '') (map fst HashCommand_ALGORITHMS) @ lit '' >''"
    by (simp only: HashCommand_DOCUMENTATION_def)
  note e2 = EncodeCommand_DOCUMENTATION_eq
  note d2 = DecodeCommand_DOCUMENTATION_eq
  note h2 = HashCommand_DOCUMENTATION_eq
  show ?thesis
    by (intro conjI) (rule e d h e1 d1 h1 e2 d2 h2)+
qed

section \<open>The exceptions of the decoders\<close>

lemma bytes_from_decode_data_error:
  "bytes_from_decode_data s = Inl e \<Longrightarrow> isinstance_ValueError e"
  by (auto simp add: bytes_from_decode_data_def split: data.splits if_splits)

lemma a2b_hex_error: "a2b_hex b = Inl e \<Longrightarrow> isinstance_ValueError e"
  by (induction b arbitrary: e rule: a2b_hex.induct)
     (auto split: if_splits sum.splits)

lemma unhexlify_error: "unhexlify s = Inl e \<Longrightarrow> isinstance_ValueError e"
  by (auto simp add: unhexlify_def split: sum.splits if_splits
      dest: bytes_from_decode_data_error a2b_hex_error)

lemma b16decode_error: "b16decode s = Inl e \<Longrightarrow> isinstance_ValueError e"
  by (auto simp add: b16decode_def split: sum.splits if_splits
      dest: bytes_from_decode_data_error unhexlify_error)

lemma case_sum_Inl_iff:
  "(case x of Inl e \<Rightarrow> Inl e | Inr r \<Rightarrow> Inr (f r)) = Inl e' \<longleftrightarrow> x = Inl e'"
  by (cases x) simp_all

lemma a2b_base64_loop_binascii:
  "a2b_base64_loop q l p n cs = Inl e \<Longrightarrow> \<exists>m. e = binascii_Error m"
proof (induction cs arbitrary: q l p n)
  case Nil
  then show ?case by (auto split: if_splits)
next
  case (Cons c cs)
  show ?case
  proof (cases "c = 61")
    case True
    with Cons.prems have "a2b_base64_loop q l (if q \<ge> 2 then p + 1 else p) n cs = Inl e"
      by (simp split: if_splits)
    then show ?thesis by (rule Cons.IH)
  next
    case ne: False
    show ?thesis
    proof (cases "table_a2b_base64 c \<ge> 64")
      case True
      with ne Cons.prems have "a2b_base64_loop q l p n cs = Inl e" by simp
      then show ?thesis by (rule Cons.IH)
    next
      case nb: False
      show ?thesis
      proof (cases "q = 0")
        case True
        with ne nb Cons.prems have "a2b_base64_loop 1 (table_a2b_base64 c) 0 n cs = Inl e"
          by (simp add: Let_def)
        then show ?thesis by (rule Cons.IH)
      next
        case q: False
        with ne nb Cons.prems have "\<exists>l'. a2b_base64_loop ((q + 1) mod 4) l' 0 (n + 1) cs = Inl e"
          by (auto simp add: Let_def case_sum_Inl_iff)
        then show ?thesis using Cons.IH by blast
      qed
    qed
  qed
qed

lemma a2b_base64_loop_error:
  "a2b_base64_loop q l p n cs = Inl e \<Longrightarrow> isinstance_ValueError e"
  by (auto dest: a2b_base64_loop_binascii)

lemma b64decode_error: "b64decode s = Inl e \<Longrightarrow> isinstance_ValueError e"
  by (auto simp add: b64decode_def a2b_base64_def split: sum.splits
      dest: bytes_from_decode_data_error a2b_base64_loop_error)

lemma b32decode_quanta_error:
  "b32decode_quanta al qs = Inl e \<Longrightarrow> isinstance_ValueError e"
  by (induction qs arbitrary: e)
     (auto split: option.splits sum.splits prod.splits)

lemma b32decode_generic_error:
  "b32decode_generic al s = Inl e \<Longrightarrow> isinstance_ValueError e"
  by (auto simp add: b32decode_generic_def Let_def
      split: sum.splits if_splits prod.splits
      dest: bytes_from_decode_data_error b32decode_quanta_error)

lemma a85decode_loop_error:
  "a85decode_loop cur xs = Inl e \<Longrightarrow> isinstance_ValueError e"
  by (induction cur xs arbitrary: e rule: a85decode_loop.induct)
     (auto simp add: Let_def split: if_splits sum.splits prod.splits)

lemma a85decode_error: "a85decode s = Inl e \<Longrightarrow> isinstance_ValueError e"
  by (auto simp add: a85decode_def Let_def split: sum.splits if_splits prod.splits
      dest: bytes_from_decode_data_error a85decode_loop_error)

lemma b85decode_chunks_error:
  "b85decode_chunks i cs = Inl e \<Longrightarrow> isinstance_ValueError e"
  by (induction i cs arbitrary: e rule: b85decode_chunks.induct)
     (auto split: option.splits if_splits sum.splits)

lemma b85decode_error: "b85decode s = Inl e \<Longrightarrow> isinstance_ValueError e"
  by (auto simp add: b85decode_def Let_def split: sum.splits if_splits
      dest: bytes_from_decode_data_error b85decode_chunks_error)

lemma bytes_decode_error: "bytes_decode b = Inl e \<Longrightarrow> e = UnicodeDecodeError"
proof (induction b arbitrary: e rule: bytes_decode.induct)
  case 1
  then show ?case by simp
next
  case (2 b bs)
  from "2.prems" show ?case
    apply (simp only: bytes_decode.simps Let_def case_sum_Inl_iff split: if_split_asm list.split_asm)
    using "2.IH" apply (blast | simp only: sum.inject)+
    done
qed

lemma str_encode_error: "str_encode s = Inl e \<Longrightarrow> e = UnicodeEncodeError"
  by (induction s arbitrary: e) (auto split: if_splits sum.splits)

lemma DecodeCommand_ALGORITHMS_error:
  assumes "map_of DecodeCommand_ALGORITHMS k = Some f" and "f s = Inl e"
  shows "isinstance_ValueError e"
proof -
  from assms(1) have "f = a85decode \<or> f = b16decode \<or> f = b32decode \<or> f = b32hexdecode \<or>
      f = b64decode \<or> f = b85decode \<or> f = unhexlify"
    by (auto simp add: DecodeCommand_ALGORITHMS_def split: if_splits)
  with assms(2) show ?thesis
    by (auto simp add: b32decode_def b32hexdecode_def
        dest: a85decode_error b16decode_error b32decode_generic_error b64decode_error
          b85decode_error unhexlify_error)
qed

end
